theory Spec2Isabelle
  imports Main
begin

section \<open>Data model of BookingModal.tsx\<close>

text \<open>
  The interfaces of the component. The field \<open>id\<close> of a time slot and of a user is
  written \<open>id_slot\<close> and \<open>id_user\<close>, since \<open>id\<close> is the identity function of HOL.
\<close>

record TimeSlot =
  id_slot :: string
  start_time :: string
  end_time :: string

text \<open>
  The props \<open>mentorId\<close> and \<open>gigTitle\<close>. The two callbacks \<open>onClose\<close> and
  \<open>onBookingComplete\<close> are not data: a call of \<open>onBookingComplete\<close> is an effect.
\<close>

record BookingModalProps =
  mentorId :: string
  gigTitle :: string

record User =
  id_user :: string

record Profile =
  email :: string
  full_name :: string

text \<open>
  A thrown value, caught as \<open>err: any\<close>. It is \<open>null\<close> or \<open>undefined\<close>
  (\<open>Nullish\<close>: a promise may reject with either), or a value whose \<open>message\<close>
  property can be read: the message, or \<open>None\<close> when the value has no such
  property.
\<close>

datatype thrown = Nullish | Thrown "string option"

definition new_Error :: "string \<Rightarrow> thrown" where
  "new_Error msg = Thrown (Some msg)"

text \<open>The result of \<open>sendBookingEmails\<close>: \<open>{success, error}\<close>.\<close>

record EmailResult =
  success :: bool
  error_email :: "string option"

subsection \<open>Remote calls\<close>

text \<open>
  The query builder of the backend client: \<open>from\<close>, \<open>select\<close>, \<open>eq\<close>, \<open>gte\<close>,
  \<open>order\<close> and \<open>single\<close> each add to the request that the awaited call sends.
\<close>

datatype qvalue = QStr string | QBool bool

datatype qfilter = Eq string qvalue | Gte string qvalue

record query =
  table :: string
  columns :: string
  filters :: "qfilter list"
  order_by :: "(string \<times> bool) option"
  single_row :: bool

definition from_table :: "string \<Rightarrow> query" where
  "from_table t = \<lparr>table = t, columns = [], filters = [], order_by = None, single_row = False\<rparr>"

definition select :: "string \<Rightarrow> query \<Rightarrow> query" where
  "select c q = q\<lparr>columns := c\<rparr>"

definition eq_filter :: "string \<Rightarrow> qvalue \<Rightarrow> query \<Rightarrow> query" where
  "eq_filter c v q = q\<lparr>filters := filters q @ [Eq c v]\<rparr>"

definition gte :: "string \<Rightarrow> qvalue \<Rightarrow> query \<Rightarrow> query" where
  "gte c v q = q\<lparr>filters := filters q @ [Gte c v]\<rparr>"

definition order_asc :: "string \<Rightarrow> bool \<Rightarrow> query \<Rightarrow> query" where
  "order_asc c ascending q = q\<lparr>order_by := Some (c, ascending)\<rparr>"

definition single :: "query \<Rightarrow> query" where
  "single q = q\<lparr>single_row := True\<rparr>"

text \<open>The argument object of the \<open>book_time_slot\<close> procedure.\<close>

record BookArgs =
  p_slot_id :: string
  p_student_id :: string
  p_mentor_id :: string

text \<open>
  The argument object of \<open>sendBookingEmails\<close>; its \<open>start_time\<close> is written
  \<open>start_time_mail\<close> to keep it apart from the field of a time slot.
\<close>

record BookingEmails =
  student_email :: string
  mentor_email :: string
  start_time_mail :: string
  mentor_name :: string
  student_name :: string
  gig_title :: string

datatype remote_call =
    GetUser
  | Rpc string BookArgs
  | Query query
  | SendBookingEmails BookingEmails

subsection \<open>Effects and component state\<close>

text \<open>
  Everything the two operations do besides control flow: the five state setters of the
  component, a remote call being issued, the two console calls and the completion
  callback. An operation is modelled by the list of its effects, in program order.
\<close>

datatype effect =
    SetSlots "TimeSlot list"
  | SetLoading bool
  | SetBookingInProgress bool
  | SetBookingSlotId "string option"
  | SetError string
  | Call remote_call
  | ConsoleError string thrown
  | ConsoleWarn string "string option"
  | OnBookingComplete

text \<open>The five \<open>useState\<close> cells, with their initial values.\<close>

record modal_state =
  slots :: "TimeSlot list"
  loading :: bool
  bookingInProgress :: bool
  bookingSlotId :: "string option"
  error :: string

definition initial_state :: modal_state where
  "initial_state =
     \<lparr>slots = [], loading = True, bookingInProgress = False, bookingSlotId = None, error = []\<rparr>"

fun apply_effect :: "effect \<Rightarrow> modal_state \<Rightarrow> modal_state" where
  "apply_effect (SetSlots xs) st = st\<lparr>slots := xs\<rparr>"
| "apply_effect (SetLoading b) st = st\<lparr>loading := b\<rparr>"
| "apply_effect (SetBookingInProgress b) st = st\<lparr>bookingInProgress := b\<rparr>"
| "apply_effect (SetBookingSlotId i) st = st\<lparr>bookingSlotId := i\<rparr>"
| "apply_effect (SetError m) st = st\<lparr>error := m\<rparr>"
| "apply_effect (Call c) st = st"
| "apply_effect (ConsoleError l e) st = st"
| "apply_effect (ConsoleWarn l e) st = st"
| "apply_effect OnBookingComplete st = st"

definition apply_effects :: "effect list \<Rightarrow> modal_state \<Rightarrow> modal_state" where
  "apply_effects es st = fold apply_effect es st"

fun is_Call :: "effect \<Rightarrow> bool" where
  "is_Call (Call c) = True"
| "is_Call e = False"

fun is_book_rpc :: "effect \<Rightarrow> bool" where
  "is_book_rpc (Call (Rpc n a)) = True"
| "is_book_rpc e = False"

fun is_ConsoleError :: "effect \<Rightarrow> bool" where
  "is_ConsoleError (ConsoleError l e) = True"
| "is_ConsoleError e = False"

fun is_SetSlots :: "effect \<Rightarrow> bool" where
  "is_SetSlots (SetSlots xs) = True"
| "is_SetSlots e = False"

text \<open>How often the completion callback is invoked in a run.\<close>

definition completions :: "effect list \<Rightarrow> nat" where
  "completions es = length (filter (\<lambda>e. e = OnBookingComplete) es)"

section \<open>loadAvailableSlots\<close>

text \<open>
  What an awaited call can give back: the \<open>await\<close> statement throws (\<open>Inl\<close>, the
  thrown value: the promise rejects, or the destructuring of its value fails) or the
  promise resolves (\<open>Inr\<close>). The values a query or procedure call resolves to are
  \<open>{data, error}\<close> pairs, \<open>null\<close> being \<open>None\<close>.
\<close>

type_synonym slots_response = "thrown + (TimeSlot list option \<times> thrown option)"

definition slots_query :: "BookingModalProps \<Rightarrow> string \<Rightarrow> query" where
  "slots_query p now =
     order_asc ''start_time'' True
       (gte ''start_time'' (QStr now)
         (eq_filter ''is_booked'' (QBool False)
           (eq_filter ''mentor_id'' (QStr (mentorId p))
             (select ''*'' (from_table ''time_slots'')))))"

text \<open>
  The \<open>try\<close> block of \<open>loadAvailableSlots\<close>: its effects and the value it throws, if
  any. \<open>now\<close> is \<open>new Date().toISOString()\<close>. \<open>data || []\<close> replaces only \<open>null\<close>,
  an empty array being truthy.
\<close>

definition loadAvailableSlots_try ::
  "BookingModalProps \<Rightarrow> string \<Rightarrow> slots_response \<Rightarrow> effect list \<times> thrown option" where
  "loadAvailableSlots_try p now r =
     (case r of
        Inl e \<Rightarrow> ([Call (Query (slots_query p now))], Some e)
      | Inr (data, Some err) \<Rightarrow> ([Call (Query (slots_query p now))], Some err)
      | Inr (data, None) \<Rightarrow>
          ([Call (Query (slots_query p now)),
            SetSlots (case data of None \<Rightarrow> [] | Some d \<Rightarrow> d)], None))"

text \<open>The \<open>catch\<close> and \<open>finally\<close> blocks of \<open>loadAvailableSlots\<close>.\<close>

definition load_catch :: "thrown \<Rightarrow> effect list" where
  "load_catch e =
     [ConsoleError ''Error loading slots:'' e, SetError ''Failed to load available time slots'']"

definition load_finally :: "effect list" where
  "load_finally = [SetLoading False]"

definition loadAvailableSlots ::
  "BookingModalProps \<Rightarrow> string \<Rightarrow> slots_response \<Rightarrow> effect list" where
  "loadAvailableSlots p now r =
     (case loadAvailableSlots_try p now r of (es, caught) \<Rightarrow>
        es @ (case caught of None \<Rightarrow> [] | Some e \<Rightarrow> load_catch e) @ load_finally)"

section \<open>bookSlot\<close>

text \<open>
  The answers of the four awaited calls of one booking attempt: \<open>auth.getUser\<close>, the
  \<open>book_time_slot\<close> procedure, the two profile queries under \<open>Promise.all\<close> (the
  \<open>data\<close> of each; their \<open>error\<close> is not read) and \<open>sendBookingEmails\<close>.
\<close>

type_synonym user_response = "thrown + User option"
type_synonym rpc_response = "thrown + (bool option \<times> thrown option)"
type_synonym profiles_response = "thrown + (Profile option \<times> Profile option)"
type_synonym email_response = "thrown + EmailResult"

record booking_env =
  getUser :: user_response
  rpc :: rpc_response
  profiles :: profiles_response
  sendBookingEmails :: email_response

text \<open>\<open>!bookingResult\<close>: the result is falsy when it is \<open>null\<close> or \<open>false\<close>.\<close>

definition truthy :: "bool option \<Rightarrow> bool" where
  "truthy v = (v = Some True)"

text \<open>
  \<open>err.message || d\<close> for a value \<open>err\<close> that is not nullish: a missing or empty
  message is falsy.
\<close>

definition message_or :: "string option \<Rightarrow> string \<Rightarrow> string" where
  "message_or msg d = (case msg of None \<Rightarrow> d | Some m \<Rightarrow> if m = [] then d else m)"

definition book_call :: "BookingModalProps \<Rightarrow> string \<Rightarrow> User \<Rightarrow> effect" where
  "book_call p slotId user =
     Call (Rpc ''book_time_slot''
       \<lparr>p_slot_id = slotId, p_student_id = id_user user, p_mentor_id = mentorId p\<rparr>)"

definition profile_calls :: "BookingModalProps \<Rightarrow> User \<Rightarrow> effect list" where
  "profile_calls p user =
     [Call (Query (single (eq_filter ''id'' (QStr (id_user user))
        (select ''email, full_name'' (from_table ''profiles''))))),
      Call (Query (single (eq_filter ''id'' (QStr (mentorId p))
        (select ''email, full_name'' (from_table ''mentor_profiles'')))))]"

definition email_call :: "BookingModalProps \<Rightarrow> string \<Rightarrow> Profile \<Rightarrow> Profile \<Rightarrow> effect" where
  "email_call p startTime studentProfile mentorProfile =
     Call (SendBookingEmails
       \<lparr>student_email = email studentProfile,
        mentor_email = email mentorProfile,
        start_time_mail = startTime,
        mentor_name = full_name mentorProfile,
        student_name = full_name studentProfile,
        gig_title = gigTitle p\<rparr>)"

text \<open>The end of the \<open>try\<close> block, once \<open>sendBookingEmails\<close> has resolved.\<close>

definition after_email :: "EmailResult \<Rightarrow> effect list" where
  "after_email emailResult =
     (if \<not> success emailResult
      then [ConsoleWarn ''Emails may not have been sent successfully:'' (error_email emailResult)]
      else [])
     @ [OnBookingComplete]"

text \<open>
  The \<open>try\<close> block of \<open>bookSlot\<close>: the effects up to the point where it ends or
  throws, and the thrown value.
\<close>

definition bookSlot_try ::
  "BookingModalProps \<Rightarrow> booking_env \<Rightarrow> string \<Rightarrow> string \<Rightarrow> effect list \<times> thrown option" where
  "bookSlot_try p env slotId startTime =
     (case getUser env of
        Inl e \<Rightarrow> ([Call GetUser], Some e)
      | Inr None \<Rightarrow> ([Call GetUser], Some (new_Error ''Not authenticated''))
      | Inr (Some user) \<Rightarrow>
     (case rpc env of
        Inl e \<Rightarrow> ([Call GetUser, book_call p slotId user], Some e)
      | Inr (bookingResult, Some bookingError) \<Rightarrow>
          ([Call GetUser, book_call p slotId user], Some bookingError)
      | Inr (bookingResult, None) \<Rightarrow>
     if \<not> truthy bookingResult
     then ([Call GetUser, book_call p slotId user], Some (new_Error ''Failed to book the slot''))
     else
     (case profiles env of
        Inl e \<Rightarrow> (Call GetUser # book_call p slotId user # profile_calls p user, Some e)
      | Inr (None, m) \<Rightarrow>
          (Call GetUser # book_call p slotId user # profile_calls p user,
           Some (new_Error ''Could not fetch user profiles''))
      | Inr (Some studentProfile, None) \<Rightarrow>
          (Call GetUser # book_call p slotId user # profile_calls p user,
           Some (new_Error ''Could not fetch user profiles''))
      | Inr (Some studentProfile, Some mentorProfile) \<Rightarrow>
     (case sendBookingEmails env of
        Inl e \<Rightarrow>
          (Call GetUser # book_call p slotId user # profile_calls p user
           @ [email_call p startTime studentProfile mentorProfile], Some e)
      | Inr emailResult \<Rightarrow>
          (Call GetUser # book_call p slotId user # profile_calls p user
           @ [email_call p startTime studentProfile mentorProfile]
           @ after_email emailResult, None)))))"

text \<open>
  The \<open>catch\<close> and \<open>finally\<close> blocks of \<open>bookSlot\<close>. The \<open>catch\<close> block logs the
  caught value and then reads \<open>err.message\<close>. On \<open>null\<close> or \<open>undefined\<close> that read
  throws a \<open>TypeError\<close> out of the \<open>catch\<close> block: \<open>setError\<close> is not called, the
  \<open>finally\<close> block runs all the same, and the promise of \<open>bookSlot\<close> rejects.
\<close>

definition book_catch :: "thrown \<Rightarrow> effect list" where
  "book_catch err =
     ConsoleError ''Booking error:'' err
     # (case err of
          Nullish \<Rightarrow> []
        | Thrown msg \<Rightarrow>
            [SetError (message_or msg ''Failed to book the session. Please try again.'')])"

definition catch_throws :: "thrown \<Rightarrow> bool" where
  "catch_throws err = (case err of Nullish \<Rightarrow> True | Thrown msg \<Rightarrow> False)"

definition book_finally :: "effect list" where
  "book_finally = [SetBookingInProgress False, SetBookingSlotId None]"

definition bookSlot ::
  "BookingModalProps \<Rightarrow> booking_env \<Rightarrow> string \<Rightarrow> string \<Rightarrow> effect list" where
  "bookSlot p env slotId startTime =
     [SetBookingSlotId (Some slotId), SetBookingInProgress True, SetError []]
     @ (case bookSlot_try p env slotId startTime of (es, caught) \<Rightarrow>
          es @ (case caught of None \<Rightarrow> [] | Some err \<Rightarrow> book_catch err) @ book_finally)"

text \<open>
  Whether the promise that \<open>bookSlot\<close> returns rejects: only when its \<open>catch\<close> block
  throws. The click handler does not await it.
\<close>

definition bookSlot_rejects ::
  "BookingModalProps \<Rightarrow> booking_env \<Rightarrow> string \<Rightarrow> string \<Rightarrow> bool" where
  "bookSlot_rejects p env slotId startTime =
     (case snd (bookSlot_try p env slotId startTime) of
        None \<Rightarrow> False
      | Some err \<Rightarrow> catch_throws err)"

section \<open>Presentation\<close>

text \<open>
  What the component renders from its state: the error banner when \<open>error\<close> is not
  empty, and below it the loading text, the empty text or one row for each slot, with
  the props that the row's button receives (\<open>startTime\<close> and \<open>endTime\<close> are
  written with a suffix, \<open>startTime\<close> being a variable of \<open>bookSlot\<close>).
\<close>

record row =
  key :: string
  startTime_prop :: string
  endTime_prop :: string
  isLoading :: bool

datatype body = Placeholder string | Rows "row list"

record view =
  banner :: "string option"
  content :: body

definition slot_row :: "modal_state \<Rightarrow> TimeSlot \<Rightarrow> row" where
  "slot_row st slot =
     \<lparr>key = id_slot slot, startTime_prop = start_time slot, endTime_prop = end_time slot,
      isLoading = (bookingInProgress st \<and> bookingSlotId st = Some (id_slot slot))\<rparr>"

definition render :: "modal_state \<Rightarrow> view" where
  "render st =
     \<lparr>banner = (if error st \<noteq> [] then Some (error st) else None),
      content =
        (if loading st then Placeholder ''Loading available slots...''
         else if slots st = [] then Placeholder ''No available time slots''
         else Rows (map (slot_row st) (slots st)))\<rparr>"

section \<open>Interleaved execution\<close>

text \<open>
  Both operations are \<open>async\<close>: each runs until its next \<open>await\<close>, and the event
  loop resumes it when the awaited call settles. In between, other handlers run. A
  suspended operation is a task: the \<open>await\<close> it stopped at, with the variables its
  continuation still reads.
\<close>

datatype task =
    AwaitSlots
  | AwaitUser string string
  | AwaitRpc string User
  | AwaitProfiles string
  | AwaitEmail

datatype response =
    SlotsResponse slots_response
  | UserResponse user_response
  | RpcResponse rpc_response
  | ProfilesResponse profiles_response
  | EmailResponse email_response

text \<open>The part of each operation that runs in the calling handler, up to the first \<open>await\<close>.\<close>

definition load_start :: "BookingModalProps \<Rightarrow> string \<Rightarrow> effect list \<times> task" where
  "load_start p now = ([Call (Query (slots_query p now))], AwaitSlots)"

definition book_start :: "string \<Rightarrow> string \<Rightarrow> effect list \<times> task" where
  "book_start slotId startTime =
     ([SetBookingSlotId (Some slotId), SetBookingInProgress True, SetError [], Call GetUser],
      AwaitUser slotId startTime)"

text \<open>
  Resuming a task with the answer of its awaited call: the effects up to the next
  \<open>await\<close> and the task suspended there, or no task when the operation has ended.
  An answer of another call's kind cannot arrive (\<open>None\<close>).
\<close>

fun resume ::
  "BookingModalProps \<Rightarrow> task \<Rightarrow> response \<Rightarrow> (effect list \<times> task option) option" where
  "resume p AwaitSlots (SlotsResponse r) =
     Some (case r of
        Inl e \<Rightarrow> (load_catch e @ load_finally, None)
      | Inr (data, Some err) \<Rightarrow> (load_catch err @ load_finally, None)
      | Inr (data, None) \<Rightarrow>
          (SetSlots (case data of None \<Rightarrow> [] | Some d \<Rightarrow> d) # load_finally, None))"
| "resume p (AwaitUser slotId startTime) (UserResponse r) =
     Some (case r of
        Inl e \<Rightarrow> (book_catch e @ book_finally, None)
      | Inr None \<Rightarrow> (book_catch (new_Error ''Not authenticated'') @ book_finally, None)
      | Inr (Some user) \<Rightarrow> ([book_call p slotId user], Some (AwaitRpc startTime user)))"
| "resume p (AwaitRpc startTime user) (RpcResponse r) =
     Some (case r of
        Inl e \<Rightarrow> (book_catch e @ book_finally, None)
      | Inr (bookingResult, Some bookingError) \<Rightarrow> (book_catch bookingError @ book_finally, None)
      | Inr (bookingResult, None) \<Rightarrow>
          if \<not> truthy bookingResult
          then (book_catch (new_Error ''Failed to book the slot'') @ book_finally, None)
          else (profile_calls p user, Some (AwaitProfiles startTime)))"
| "resume p (AwaitProfiles startTime) (ProfilesResponse r) =
     Some (case r of
        Inl e \<Rightarrow> (book_catch e @ book_finally, None)
      | Inr (None, m) \<Rightarrow>
          (book_catch (new_Error ''Could not fetch user profiles'') @ book_finally, None)
      | Inr (Some studentProfile, None) \<Rightarrow>
          (book_catch (new_Error ''Could not fetch user profiles'') @ book_finally, None)
      | Inr (Some studentProfile, Some mentorProfile) \<Rightarrow>
          ([email_call p startTime studentProfile mentorProfile], Some AwaitEmail))"
| "resume p AwaitEmail (EmailResponse r) =
     Some (case r of
        Inl e \<Rightarrow> (book_catch e @ book_finally, None)
      | Inr emailResult \<Rightarrow> (after_email emailResult @ book_finally, None))"
| "resume p k r = None"

text \<open>One task run alone: its effects once the given answers have carried it to its end.\<close>

fun drive :: "BookingModalProps \<Rightarrow> task \<Rightarrow> response list \<Rightarrow> effect list option" where
  "drive p k [] = None"
| "drive p k (r # rs) =
     (case resume p k r of
        None \<Rightarrow> None
      | Some (es, None) \<Rightarrow> Some es
      | Some (es, Some k') \<Rightarrow> map_option (\<lambda>es'. es @ es') (drive p k' rs))"

definition answers :: "booking_env \<Rightarrow> response list" where
  "answers env =
     [UserResponse (getUser env), RpcResponse (rpc env),
      ProfilesResponse (profiles env), EmailResponse (sendBookingEmails env)]"

text \<open>
  The component with its tasks in flight and the effects so far. The button of a row
  is another file of the repository; the model lets a row call \<open>onBook\<close> while it is
  rendered and its \<open>isLoading\<close> prop is false, so a row shown as loading is taken to
  be disabled.
\<close>

record world =
  ui :: modal_state
  inflight :: "task list"
  trace :: "effect list"

definition initial_world :: world where
  "initial_world = \<lparr>ui = initial_state, inflight = [], trace = []\<rparr>"

datatype action =
    LoadSlots string
  | ClickBook string string
  | Settle nat response

definition can_book :: "modal_state \<Rightarrow> string \<Rightarrow> string \<Rightarrow> bool" where
  "can_book st slotId start =
     (case content (render st) of
        Placeholder t \<Rightarrow> False
      | Rows rs \<Rightarrow> list_ex (\<lambda>r. key r = slotId \<and> startTime_prop r = start \<and> \<not> isLoading r) rs)"

definition spawn :: "effect list \<times> task \<Rightarrow> world \<Rightarrow> world" where
  "spawn ek w =
     w\<lparr>ui := apply_effects (fst ek) (ui w),
       inflight := inflight w @ [snd ek],
       trace := trace w @ fst ek\<rparr>"

definition settle :: "nat \<Rightarrow> effect list \<times> task option \<Rightarrow> world \<Rightarrow> world" where
  "settle i ek w =
     w\<lparr>ui := apply_effects (fst ek) (ui w),
       inflight :=
         (case snd ek of
            None \<Rightarrow> take i (inflight w) @ drop (Suc i) (inflight w)
          | Some k \<Rightarrow> (inflight w)[i := k]),
       trace := trace w @ fst ek\<rparr>"

fun step :: "BookingModalProps \<Rightarrow> world \<Rightarrow> action \<Rightarrow> world option" where
  "step p w (LoadSlots now) = Some (spawn (load_start p now) w)"
| "step p w (ClickBook slotId start) =
     (if can_book (ui w) slotId start then Some (spawn (book_start slotId start) w) else None)"
| "step p w (Settle i r) =
     (if i < length (inflight w)
      then map_option (\<lambda>ek. settle i ek w) (resume p (inflight w ! i) r)
      else None)"

fun run :: "BookingModalProps \<Rightarrow> world \<Rightarrow> action list \<Rightarrow> world option" where
  "run p w [] = Some w"
| "run p w (a # as) = (case step p w a of None \<Rightarrow> None | Some w' \<Rightarrow> run p w' as)"

definition reachable :: "BookingModalProps \<Rightarrow> world \<Rightarrow> bool" where
  "reachable p w = (\<exists>as. run p initial_world as = Some w)"

fun is_AwaitRpc :: "task \<Rightarrow> bool" where
  "is_AwaitRpc (AwaitRpc startTime user) = True"
| "is_AwaitRpc k = False"

text \<open>The booking procedure calls that have been sent and have not settled yet.\<close>

definition rpcs_in_flight :: "world \<Rightarrow> nat" where
  "rpcs_in_flight w = length (filter is_AwaitRpc (inflight w))"

section \<open>An example scenario\<close>

text \<open>
  Mentor \<open>m1\<close> has the two slots \<open>s1\<close> and \<open>s2\<close>; the student \<open>u1\<close> books.
\<close>

definition example_props :: BookingModalProps where
  "example_props = \<lparr>mentorId = ''m1'', gigTitle = ''Guitar basics''\<rparr>"

definition slot1 :: TimeSlot where
  "slot1 = \<lparr>id_slot = ''s1'', start_time = ''2025-01-10T10:00Z'', end_time = ''2025-01-10T11:00Z''\<rparr>"

definition slot2 :: TimeSlot where
  "slot2 = \<lparr>id_slot = ''s2'', start_time = ''2025-01-10T11:00Z'', end_time = ''2025-01-10T12:00Z''\<rparr>"

definition student :: User where
  "student = \<lparr>id_user = ''u1''\<rparr>"

definition student_profile :: Profile where
  "student_profile = \<lparr>email = ''student@example.org'', full_name = ''Sam Student''\<rparr>"

definition mentor_profile :: Profile where
  "mentor_profile = \<lparr>email = ''mentor@example.org'', full_name = ''Mia Mentor''\<rparr>"

definition emails_sent :: EmailResult where
  "emails_sent = \<lparr>success = True, error_email = None\<rparr>"

definition emails_failed :: EmailResult where
  "emails_failed = \<lparr>success = False, error_email = Some ''SMTP timeout''\<rparr>"

definition env_ok :: booking_env where
  "env_ok =
     \<lparr>getUser = Inr (Some student), rpc = Inr (Some True, None),
      profiles = Inr (Some student_profile, Some mentor_profile),
      sendBookingEmails = Inr emails_sent\<rparr>"

definition env_email_failed :: booking_env where
  "env_email_failed = env_ok\<lparr>sendBookingEmails := Inr emails_failed\<rparr>"

definition env_no_user :: booking_env where
  "env_no_user = env_ok\<lparr>getUser := Inr None\<rparr>"

definition env_slot_taken :: booking_env where
  "env_slot_taken = env_ok\<lparr>rpc := Inr (Some False, None)\<rparr>"

text \<open>The current-user call rejects with \<open>null\<close>.\<close>

definition env_user_rejects_null :: booking_env where
  "env_user_rejects_null = env_ok\<lparr>getUser := Inl Nullish\<rparr>"

text \<open>The state once the two slots are loaded, with the banner of an earlier failure.\<close>

definition listed_state :: modal_state where
  "listed_state =
     \<lparr>slots = [slot1, slot2], loading = False, bookingInProgress = False,
      bookingSlotId = None, error = ''Failed to book the slot''\<rparr>"

text \<open>
  The modal mounts and lists both slots; the user clicks \<open>s1\<close>. Then, with that
  attempt still waiting for its first answer, the user clicks \<open>s2\<close>, and both
  attempts learn the current user.
\<close>

definition first_booking :: "action list" where
  "first_booking =
     [LoadSlots ''2025-01-01T00:00:00.000Z'',
      Settle 0 (SlotsResponse (Inr (Some [slot1, slot2], None))),
      ClickBook ''s1'' ''2025-01-10T10:00Z'']"

definition second_booking :: "action list" where
  "second_booking =
     [ClickBook ''s2'' ''2025-01-10T11:00Z'',
      Settle 0 (UserResponse (Inr (Some student))),
      Settle 1 (UserResponse (Inr (Some student)))]"

text \<open>The state in which the attempt on \<open>s1\<close> waits for the current user.\<close>

definition booking_s1 :: world where
  "booking_s1 =
     \<lparr>ui = \<lparr>slots = [slot1, slot2], loading = False, bookingInProgress = True,
            bookingSlotId = Some ''s1'', error = []\<rparr>,
      inflight = [AwaitUser ''s1'' ''2025-01-10T10:00Z''],
      trace =
        [Call (Query (slots_query example_props ''2025-01-01T00:00:00.000Z'')),
         SetSlots [slot1, slot2], SetLoading False,
         SetBookingSlotId (Some ''s1''), SetBookingInProgress True, SetError [], Call GetUser]\<rparr>"

section \<open>Basic facts\<close>

lemma apply_effects_Nil [simp]: "apply_effects [] st = st"
  by (simp add: apply_effects_def)

lemma apply_effects_Cons [simp]: "apply_effects (e # es) st = apply_effects es (apply_effect e st)"
  by (simp add: apply_effects_def)

lemma apply_effects_append [simp]:
  "apply_effects (es @ es') st = apply_effects es' (apply_effects es st)"
  by (simp add: apply_effects_def)

lemma completions_simps [simp]:
  "completions [] = 0"
  "completions (e # es) = (if e = OnBookingComplete then Suc (completions es) else completions es)"
  "completions (es @ es') = completions es + completions es'"
  by (simp_all add: completions_def)

lemma message_or_nonempty: "d \<noteq> [] \<Longrightarrow> message_or msg d \<noteq> []"
  by (simp add: message_or_def split: option.split)

lemma slots_query_eq:
  "slots_query p now =
     \<lparr>table = ''time_slots'', columns = ''*'',
      filters = [Eq ''mentor_id'' (QStr (mentorId p)), Eq ''is_booked'' (QBool False),
                 Gte ''start_time'' (QStr now)],
      order_by = Some (''start_time'', True), single_row = False\<rparr>"
  by (simp add: slots_query_def order_asc_def gte_def eq_filter_def select_def from_table_def)

lemma loadAvailableSlots_cases:
  "loadAvailableSlots p now (Inl e) =
     Call (Query (slots_query p now)) # load_catch e @ load_finally"
  "loadAvailableSlots p now (Inr (data, Some err)) =
     Call (Query (slots_query p now)) # load_catch err @ load_finally"
  "loadAvailableSlots p now (Inr (data, None)) =
     Call (Query (slots_query p now))
     # SetSlots (case data of None \<Rightarrow> [] | Some d \<Rightarrow> d) # load_finally"
  by (simp_all add: loadAvailableSlots_def loadAvailableSlots_try_def)

lemma bookSlot_unfold:
  "bookSlot p env slotId startTime =
     [SetBookingSlotId (Some slotId), SetBookingInProgress True, SetError []]
     @ fst (bookSlot_try p env slotId startTime)
     @ (case snd (bookSlot_try p env slotId startTime) of
          None \<Rightarrow> [] | Some err \<Rightarrow> book_catch err)
     @ book_finally"
  by (simp add: bookSlot_def split: prod.split)

lemma bookSlot_try_success:
  assumes "getUser env = Inr (Some user)" and "rpc env = Inr (bookingResult, None)"
    and "truthy bookingResult" and "profiles env = Inr (Some sp, Some mp)"
    and "sendBookingEmails env = Inr emailResult"
  shows "bookSlot_try p env slotId startTime =
     (Call GetUser # book_call p slotId user # profile_calls p user
        @ [email_call p startTime sp mp] @ after_email emailResult, None)"
  using assms by (simp add: bookSlot_try_def)

text \<open>
  When the \<open>try\<close> block throws: a rejected call at any \<open>await\<close>, no user, an error
  or a falsy result of the procedure, a profile without data.
\<close>

lemma bookSlot_try_throws:
  "getUser env = Inl e \<Longrightarrow> snd (bookSlot_try p env slotId startTime) = Some e"
  "getUser env = Inr None \<Longrightarrow>
     snd (bookSlot_try p env slotId startTime) = Some (new_Error ''Not authenticated'')"
  "getUser env = Inr (Some user) \<Longrightarrow> rpc env = Inl e \<Longrightarrow>
     snd (bookSlot_try p env slotId startTime) = Some e"
  "getUser env = Inr (Some user) \<Longrightarrow> rpc env = Inr (bookingResult, Some bookingError) \<Longrightarrow>
     snd (bookSlot_try p env slotId startTime) = Some bookingError"
  "getUser env = Inr (Some user) \<Longrightarrow> rpc env = Inr (bookingResult, None) \<Longrightarrow>
     \<not> truthy bookingResult \<Longrightarrow>
     snd (bookSlot_try p env slotId startTime) = Some (new_Error ''Failed to book the slot'')"
  "getUser env = Inr (Some user) \<Longrightarrow> rpc env = Inr (bookingResult, None) \<Longrightarrow>
     truthy bookingResult \<Longrightarrow> profiles env = Inl e \<Longrightarrow>
     snd (bookSlot_try p env slotId startTime) = Some e"
  "getUser env = Inr (Some user) \<Longrightarrow> rpc env = Inr (bookingResult, None) \<Longrightarrow>
     truthy bookingResult \<Longrightarrow> profiles env = Inr (sp, mp) \<Longrightarrow> sp = None \<or> mp = None \<Longrightarrow>
     snd (bookSlot_try p env slotId startTime) = Some (new_Error ''Could not fetch user profiles'')"
  by (auto simp add: bookSlot_try_def split: option.split)

text \<open>
  The \<open>try\<close> block sets no state and logs no error, and calls the completion callback
  once if it ends and not at all if it throws.
\<close>

lemma try_effects_quiet:
  "completions (fst (bookSlot_try p env slotId startTime)) =
     (case snd (bookSlot_try p env slotId startTime) of None \<Rightarrow> 1 | Some err \<Rightarrow> 0)"
  "apply_effects (fst (bookSlot_try p env slotId startTime)) st = st"
  "filter is_ConsoleError (fst (bookSlot_try p env slotId startTime)) = []"
  by (simp_all add: bookSlot_try_def book_call_def profile_calls_def email_call_def
      after_email_def split: sum.split option.split prod.split)

section \<open>The operations as interleaved tasks\<close>

text \<open>
  Run alone, with its calls answered, each operation ends, and its effects are those of
  the functions \<open>loadAvailableSlots\<close> and \<open>bookSlot\<close> above.
\<close>

lemma drive_loadAvailableSlots:
  "map_option (\<lambda>es. fst (load_start p now) @ es)
     (drive p (snd (load_start p now)) [SlotsResponse r])
     = Some (loadAvailableSlots p now r)"
  by (simp add: load_start_def loadAvailableSlots_def loadAvailableSlots_try_def load_finally_def
      split: sum.split option.split prod.split)

lemma drive_bookSlot:
  "map_option (\<lambda>es. fst (book_start slotId startTime) @ es)
     (drive p (snd (book_start slotId startTime)) (answers env))
     = Some (bookSlot p env slotId startTime)"
  by (simp add: book_start_def answers_def bookSlot_def bookSlot_try_def
      split: sum.split option.split prod.split)

lemma run_append:
  "run p w (as @ bs) = (case run p w as of None \<Rightarrow> None | Some w' \<Rightarrow> run p w' bs)"
  by (induction as arbitrary: w) (simp_all split: option.split)

text \<open>The state of the component is the effects so far, applied to the initial state.\<close>

lemma step_ui_trace:
  assumes "step p w a = Some w'" and "ui w = apply_effects (trace w) initial_state"
  shows "ui w' = apply_effects (trace w') initial_state"
proof (cases a)
  case (LoadSlots now)
  with assms show ?thesis by (auto simp add: spawn_def)
next
  case (ClickBook slotId start)
  with assms show ?thesis by (auto simp add: spawn_def split: if_splits)
next
  case (Settle i r)
  with assms show ?thesis by (auto simp add: settle_def split: if_splits)
qed

lemma run_ui_trace:
  "run p w as = Some w' \<Longrightarrow> ui w = apply_effects (trace w) initial_state
     \<Longrightarrow> ui w' = apply_effects (trace w') initial_state"
proof (induction as arbitrary: w)
  case Nil
  then show ?case by simp
next
  case (Cons a as)
  then show ?case
    by (auto split: option.splits dest: step_ui_trace)
qed

lemma reachable_ui_trace:
  "reachable p w \<Longrightarrow> ui w = apply_effects (trace w) initial_state"
  unfolding reachable_def
  by (auto dest: run_ui_trace simp add: initial_world_def)

lemma run_first_booking: "run example_props initial_world first_booking = Some booking_s1"
  by (simp add: first_booking_def initial_world_def initial_state_def booking_s1_def
      spawn_def settle_def load_start_def book_start_def load_finally_def can_book_def
      render_def slot_row_def slot1_def slot2_def)

lemma reachable_booking_s1: "reachable example_props booking_s1"
  unfolding reachable_def using run_first_booking by blast

text \<open>
  Among interleaved tasks too, the step that ends a booking attempt leaves the
  in-progress flag false and no slot marked as being booked.
\<close>

lemma resume_booking_end:
  assumes "resume p k r = Some (es, None)" and "k \<noteq> AwaitSlots"
  shows "\<exists>es'. es = es' @ book_finally"
  using assms
  by (cases "(p, k, r)" rule: resume.cases)
    (auto split: sum.splits option.splits prod.splits if_splits)

lemma settle_booking_end:
  assumes "step p w (Settle i r) = Some w'" and "length (inflight w') < length (inflight w)"
    and "inflight w ! i \<noteq> AwaitSlots"
  shows "\<not> bookingInProgress (ui w') \<and> bookingSlotId (ui w') = None"
proof -
  from assms(1) obtain ek where i: "i < length (inflight w)"
    and r: "resume p (inflight w ! i) r = Some ek" and w': "w' = settle i ek w"
    by (auto split: if_splits)
  obtain es k' where ek: "ek = (es, k')" by (cases ek)
  have "k' = None"
    using assms(2) by (cases k') (simp_all add: w' ek settle_def)
  with r ek assms(3) obtain es' where "es = es' @ book_finally"
    using resume_booking_end by blast
  then show ?thesis
    by (simp add: w' ek settle_def book_finally_def)
qed

section \<open>Loading the slots\<close>

text \<open>
  C7. For every mentor identifier, whatever the backend answers, the only remote call of
  the slot loader is one query on \<open>time_slots\<close> that selects all columns, filters on
  \<open>mentor_id\<close> equal to the mentor identifier, \<open>is_booked\<close> equal to false and
  \<open>start_time\<close> greater than or equal to the current time, and orders by \<open>start_time\<close>
  ascending. When the query succeeds, the slot list becomes the returned data (the
  empty list for \<open>null\<close> data).
\<close>

theorem load_issues_slot_query:
  "filter is_Call (loadAvailableSlots p now r) =
     [Call (Query
        \<lparr>table = ''time_slots'', columns = ''*'',
         filters = [Eq ''mentor_id'' (QStr (mentorId p)), Eq ''is_booked'' (QBool False),
                    Gte ''start_time'' (QStr now)],
         order_by = Some (''start_time'', True), single_row = False\<rparr>)]
   \<and> slots (apply_effects (loadAvailableSlots p now (Inr (Some d, None))) st) = d
   \<and> slots (apply_effects (loadAvailableSlots p now (Inr (None, None))) st) = []"
proof -
  have "filter is_Call (loadAvailableSlots p now r) = [Call (Query (slots_query p now))]"
  proof (cases r)
    case (Inl e)
    then show ?thesis
      by (simp add: loadAvailableSlots_cases load_catch_def load_finally_def)
  next
    case (Inr dr)
    obtain data err where dr: "dr = (data, err)" by (cases dr)
    show ?thesis
      by (cases err)
        (simp_all add: Inr dr loadAvailableSlots_cases load_catch_def load_finally_def)
  qed
  then show ?thesis
    by (simp add: slots_query_eq loadAvailableSlots_cases load_finally_def)
qed

text \<open>
  C6. For every slot-load attempt that fails, the query either rejecting or returning an
  error: the error state becomes \<open>Failed to load available time slots\<close> and is shown
  in the banner, the cause is logged with \<open>console.error\<close>, and the slot list is not
  set, so that it keeps its value; loaded at mount, from the initial state, it remains
  empty.
\<close>

theorem load_failure_reported:
  assumes "r = Inl cause \<or> (\<exists>data. r = Inr (data, Some cause))"
  shows "error (apply_effects (loadAvailableSlots p now r) st) =
        ''Failed to load available time slots''
    \<and> banner (render (apply_effects (loadAvailableSlots p now r) st)) =
        Some ''Failed to load available time slots''
    \<and> ConsoleError ''Error loading slots:'' cause \<in> set (loadAvailableSlots p now r)
    \<and> filter is_SetSlots (loadAvailableSlots p now r) = []
    \<and> slots (apply_effects (loadAvailableSlots p now r) st) = slots st
    \<and> slots (apply_effects (loadAvailableSlots p now r) initial_state) = []"
  using assms
  by (auto simp add: loadAvailableSlots_cases load_catch_def load_finally_def render_def
      initial_state_def)

theorem load_failure_reported_witness:
  "error (apply_effects
      (loadAvailableSlots example_props ''2025-01-01T00:00:00.000Z''
         (Inr (None, Some (Thrown (Some ''connection refused''))))) initial_state) =
     ''Failed to load available time slots''
   \<and> ConsoleError ''Error loading slots:'' (Thrown (Some ''connection refused''))
       \<in> set (loadAvailableSlots example_props ''2025-01-01T00:00:00.000Z''
           (Inr (None, Some (Thrown (Some ''connection refused'')))))
   \<and> slots (apply_effects
      (loadAvailableSlots example_props ''2025-01-01T00:00:00.000Z''
         (Inr (None, Some (Thrown (Some ''connection refused''))))) initial_state) = []"
  using load_failure_reported
    [where r = "Inr (None, Some (Thrown (Some ''connection refused'')))"
       and cause = "Thrown (Some ''connection refused'')" and p = example_props
       and now = "''2025-01-01T00:00:00.000Z''" and st = initial_state]
  by blast

text \<open>
  C8. For every mentor identifier for which the slot query returns no slot, the slot
  list is empty after the load, loading is over, and the component renders
  \<open>No available time slots\<close> in place of the list.
\<close>

theorem load_no_slots_empty_state:
  "slots (apply_effects (loadAvailableSlots p now (Inr (Some [], None))) st) = []
   \<and> loading (apply_effects (loadAvailableSlots p now (Inr (Some [], None))) st) = False
   \<and> content (render (apply_effects (loadAvailableSlots p now (Inr (Some [], None))) st)) =
       Placeholder ''No available time slots''"
  by (simp add: loadAvailableSlots_cases load_finally_def render_def)

section \<open>Booking a slot\<close>

text \<open>
  C2. For every booking attempt with an authenticated user, a truthy result of the
  booking procedure, data for both profiles and a successful email dispatch: the
  completion callback is invoked exactly once, the error state is the empty string at
  the end (no banner), and the attempt never sets it to anything else.
\<close>

theorem bookSlot_success_completes_once:
  assumes "getUser env = Inr (Some user)" and "rpc env = Inr (bookingResult, None)"
    and "truthy bookingResult" and "profiles env = Inr (Some sp, Some mp)"
    and "sendBookingEmails env = Inr emailResult" and "success emailResult"
  shows "completions (bookSlot p env slotId startTime) = 1
    \<and> error (apply_effects (bookSlot p env slotId startTime) st) = []
    \<and> banner (render (apply_effects (bookSlot p env slotId startTime) st)) = None
    \<and> (\<forall>m. SetError m \<in> set (bookSlot p env slotId startTime) \<longrightarrow> m = [])"
  using assms(6)
  by (auto simp add: bookSlot_unfold bookSlot_try_success [OF assms(1-5)] book_finally_def
      book_call_def profile_calls_def email_call_def after_email_def render_def)

theorem bookSlot_success_completes_once_witness:
  "getUser env_ok = Inr (Some student) \<and> rpc env_ok = Inr (Some True, None)
   \<and> truthy (Some True) \<and> profiles env_ok = Inr (Some student_profile, Some mentor_profile)
   \<and> sendBookingEmails env_ok = Inr emails_sent \<and> success emails_sent
   \<and> completions (bookSlot example_props env_ok ''s1'' ''2025-01-10T10:00Z'') = 1
   \<and> error (apply_effects (bookSlot example_props env_ok ''s1'' ''2025-01-10T10:00Z'')
        listed_state) = []"
  using bookSlot_success_completes_once
    [where env = env_ok and user = student and bookingResult = "Some True"
       and sp = student_profile and mp = mentor_profile and emailResult = emails_sent
       and p = example_props and slotId = "''s1''" and startTime = "''2025-01-10T10:00Z''"
       and st = listed_state]
  by (simp add: env_ok_def emails_sent_def truthy_def)

text \<open>
  C3. For every booking attempt where the booking procedure succeeds and both profiles
  have data but the email dispatch reports failure: the completion callback is still
  invoked exactly once, no error is shown, and the email failure is only logged, by
  one \<open>console.warn\<close>; nothing is logged as an error.
\<close>

theorem bookSlot_email_failure_tolerated:
  assumes "getUser env = Inr (Some user)" and "rpc env = Inr (bookingResult, None)"
    and "truthy bookingResult" and "profiles env = Inr (Some sp, Some mp)"
    and "sendBookingEmails env = Inr emailResult" and "\<not> success emailResult"
  shows "completions (bookSlot p env slotId startTime) = 1
    \<and> error (apply_effects (bookSlot p env slotId startTime) st) = []
    \<and> banner (render (apply_effects (bookSlot p env slotId startTime) st)) = None
    \<and> (\<forall>m. SetError m \<in> set (bookSlot p env slotId startTime) \<longrightarrow> m = [])
    \<and> ConsoleWarn ''Emails may not have been sent successfully:'' (error_email emailResult)
        \<in> set (bookSlot p env slotId startTime)
    \<and> filter is_ConsoleError (bookSlot p env slotId startTime) = []"
  using assms(6)
  by (auto simp add: bookSlot_unfold bookSlot_try_success [OF assms(1-5)] book_finally_def
      book_call_def profile_calls_def email_call_def after_email_def render_def)

theorem bookSlot_email_failure_tolerated_witness:
  "getUser env_email_failed = Inr (Some student)
   \<and> rpc env_email_failed = Inr (Some True, None) \<and> truthy (Some True)
   \<and> profiles env_email_failed = Inr (Some student_profile, Some mentor_profile)
   \<and> sendBookingEmails env_email_failed = Inr emails_failed \<and> \<not> success emails_failed
   \<and> completions (bookSlot example_props env_email_failed ''s1'' ''2025-01-10T10:00Z'') = 1
   \<and> error (apply_effects
        (bookSlot example_props env_email_failed ''s1'' ''2025-01-10T10:00Z'') listed_state) = []
   \<and> ConsoleWarn ''Emails may not have been sent successfully:'' (Some ''SMTP timeout'')
        \<in> set (bookSlot example_props env_email_failed ''s1'' ''2025-01-10T10:00Z'')"
  using bookSlot_email_failure_tolerated
    [where env = env_email_failed and user = student and bookingResult = "Some True"
       and sp = student_profile and mp = mentor_profile and emailResult = emails_failed
       and p = example_props and slotId = "''s1''" and startTime = "''2025-01-10T10:00Z''"
       and st = listed_state]
  by (simp add: env_email_failed_def env_ok_def emails_failed_def truthy_def)

text \<open>
  C4. For every booking attempt where the current-user call resolves to no user: the
  booking procedure is never called (the current-user call is the only remote call),
  and the error \<open>Not authenticated\<close> is displayed.
\<close>

theorem bookSlot_unauthenticated:
  assumes "getUser env = Inr None"
  shows "filter is_book_rpc (bookSlot p env slotId startTime) = []
    \<and> filter is_Call (bookSlot p env slotId startTime) = [Call GetUser]
    \<and> error (apply_effects (bookSlot p env slotId startTime) st) = ''Not authenticated''
    \<and> banner (render (apply_effects (bookSlot p env slotId startTime) st)) =
        Some ''Not authenticated''"
  using assms
  by (simp add: bookSlot_def bookSlot_try_def book_catch_def book_finally_def new_Error_def
      message_or_def render_def)

theorem bookSlot_unauthenticated_witness:
  "getUser env_no_user = Inr None
   \<and> filter is_book_rpc (bookSlot example_props env_no_user ''s1'' ''2025-01-10T10:00Z'') = []
   \<and> error (apply_effects (bookSlot example_props env_no_user ''s1'' ''2025-01-10T10:00Z'')
        listed_state) = ''Not authenticated''"
  using bookSlot_unauthenticated
    [where env = env_no_user and p = example_props and slotId = "''s1''"
       and startTime = "''2025-01-10T10:00Z''" and st = listed_state]
  by (simp add: env_no_user_def)

text \<open>
  What a failed attempt reports. Whenever the \<open>try\<close> block throws (the cases are
  those of \<open>bookSlot_try_throws\<close>), the in-progress flag and the slot being booked
  are cleared and the completion callback is not invoked. When the thrown value is not
  nullish, its message, or \<open>Failed to book the session. Please try again.\<close> when it
  has none, is displayed.
\<close>

lemma bookSlot_failure_cleared:
  assumes "snd (bookSlot_try p env slotId startTime) = Some err"
  shows "bookingInProgress (apply_effects (bookSlot p env slotId startTime) st) = False
    \<and> bookingSlotId (apply_effects (bookSlot p env slotId startTime) st) = None
    \<and> completions (bookSlot p env slotId startTime) = 0
    \<and> ConsoleError ''Booking error:'' err \<in> set (bookSlot p env slotId startTime)"
proof -
  have c: "completions (fst (bookSlot_try p env slotId startTime)) = 0"
    using assms by (simp add: try_effects_quiet(1))
  show ?thesis
    using c
    by (cases err)
      (simp_all add: bookSlot_unfold assms try_effects_quiet(2) book_catch_def book_finally_def)
qed

lemma bookSlot_failure_shown:
  assumes "snd (bookSlot_try p env slotId startTime) = Some (Thrown msg)"
  shows "error (apply_effects (bookSlot p env slotId startTime) st) =
        message_or msg ''Failed to book the session. Please try again.''
    \<and> banner (render (apply_effects (bookSlot p env slotId startTime) st)) =
        Some (message_or msg ''Failed to book the session. Please try again.'')
    \<and> \<not> bookSlot_rejects p env slotId startTime"
proof -
  have n: "message_or msg ''Failed to book the session. Please try again.'' \<noteq> []"
    by (rule message_or_nonempty) simp
  show ?thesis
    using n
    by (simp add: bookSlot_unfold assms try_effects_quiet(2) book_catch_def book_finally_def
        render_def bookSlot_rejects_def catch_throws_def)
qed

lemma bookSlot_failure_shown_example:
  "snd (bookSlot_try example_props env_slot_taken ''s1'' ''2025-01-10T10:00Z'') =
     Some (new_Error ''Failed to book the slot'')
   \<and> error (apply_effects
        (bookSlot example_props env_slot_taken ''s1'' ''2025-01-10T10:00Z'')
        (ui booking_s1)) = ''Failed to book the slot''"
proof -
  have t: "snd (bookSlot_try example_props env_slot_taken ''s1'' ''2025-01-10T10:00Z'') =
     Some (Thrown (Some ''Failed to book the slot''))"
    by (simp add: bookSlot_try_def env_slot_taken_def env_ok_def truthy_def new_Error_def)
  show ?thesis
    using t bookSlot_failure_shown [OF t, where st = "ui booking_s1"]
    by (simp add: message_or_def new_Error_def)
qed

text \<open>
  C5. The claim asks that for every error thrown at steps 1 to 3 the message of the
  error, or the generic fallback, is displayed. The code does so for every thrown value
  but \<open>null\<close> and \<open>undefined\<close>. When the current-user call rejects with \<open>null\<close>,
  an error is thrown at step 1; the \<open>catch\<close> block logs it and then throws at
  \<open>err.message\<close>, before \<open>setError\<close>. The attempt ends with the in-progress state
  cleared and the callback not invoked, but with an empty error state and no banner,
  the fallback message not being displayed, and its promise rejects.
\<close>

theorem bookSlot_nullish_error_not_displayed:
  "snd (bookSlot_try example_props env_user_rejects_null ''s1'' ''2025-01-10T10:00Z'') =
     Some Nullish
   \<and> bookSlot example_props env_user_rejects_null ''s1'' ''2025-01-10T10:00Z'' =
       [SetBookingSlotId (Some ''s1''), SetBookingInProgress True, SetError [], Call GetUser,
        ConsoleError ''Booking error:'' Nullish,
        SetBookingInProgress False, SetBookingSlotId None]
   \<and> error (apply_effects
        (bookSlot example_props env_user_rejects_null ''s1'' ''2025-01-10T10:00Z'')
        listed_state) = []
   \<and> banner (render (apply_effects
        (bookSlot example_props env_user_rejects_null ''s1'' ''2025-01-10T10:00Z'')
        listed_state)) = None
   \<and> bookSlot_rejects example_props env_user_rejects_null ''s1'' ''2025-01-10T10:00Z''"
  by (simp add: bookSlot_def bookSlot_try_def bookSlot_rejects_def catch_throws_def
      book_catch_def book_finally_def env_user_rejects_null_def env_ok_def render_def
      listed_state_def)

text \<open>
  C9. After every invocation of the booking operation, whatever its calls answered,
  \<open>bookingInProgress\<close> is false and \<open>bookingSlotId\<close> is null: the two resets of the
  \<open>finally\<close> block are the last effects on every path.
\<close>

theorem bookSlot_resets_progress:
  "bookingInProgress (apply_effects (bookSlot p env slotId startTime) st) = False
   \<and> bookingSlotId (apply_effects (bookSlot p env slotId startTime) st) = None
   \<and> (\<exists>es. bookSlot p env slotId startTime =
         es @ [SetBookingInProgress False, SetBookingSlotId None])"
proof -
  have "\<exists>es. bookSlot p env slotId startTime = es @ book_finally"
    unfolding bookSlot_unfold by (metis append.assoc)
  then obtain es where es: "bookSlot p env slotId startTime = es @ book_finally" ..
  show ?thesis
    unfolding es by (simp add: book_finally_def)
qed

text \<open>
  C10. Every invocation of the booking operation sets the error state to the empty
  string before its first remote call: the effects that precede the first call are the
  three initial setters, the call that follows them is the current-user call, and at
  that point the error state is empty and no banner is rendered, whatever the state
  before.
\<close>

theorem bookSlot_clears_error_first:
  "(\<exists>rest. bookSlot p env slotId startTime =
       [SetBookingSlotId (Some slotId), SetBookingInProgress True, SetError []]
       @ Call GetUser # rest)
   \<and> error (apply_effects
        (takeWhile (\<lambda>e. \<not> is_Call e) (bookSlot p env slotId startTime)) st) = []
   \<and> banner (render (apply_effects
        (takeWhile (\<lambda>e. \<not> is_Call e) (bookSlot p env slotId startTime)) st)) = None"
proof -
  have "\<exists>rest. fst (bookSlot_try p env slotId startTime) = Call GetUser # rest"
    by (simp add: bookSlot_try_def split: sum.split option.split prod.split)
  then obtain rest where "fst (bookSlot_try p env slotId startTime) = Call GetUser # rest" ..
  then have b: "bookSlot p env slotId startTime =
       [SetBookingSlotId (Some slotId), SetBookingInProgress True, SetError []]
       @ Call GetUser # (rest @
          (case snd (bookSlot_try p env slotId startTime) of
             None \<Rightarrow> [] | Some err \<Rightarrow> book_catch err)
          @ book_finally)"
    by (simp add: bookSlot_unfold)
  have t: "takeWhile (\<lambda>e. \<not> is_Call e) (bookSlot p env slotId startTime) =
       [SetBookingSlotId (Some slotId), SetBookingInProgress True, SetError []]"
    by (subst b) simp
  show ?thesis
    unfolding t using b by (simp add: render_def)
qed

section \<open>Two bookings at once\<close>

text \<open>
  C1, as stated, does not hold: \<open>bookSlot\<close> never reads \<open>bookingInProgress\<close>. In the
  example the attempt on \<open>s1\<close> is unresolved and the flag is true when \<open>s2\<close> is
  clicked; the click is accepted, and once both attempts know the user, two calls of
  the booking procedure, for \<open>s1\<close> and for \<open>s2\<close>, are in flight at once.
\<close>

theorem two_booking_rpcs_in_flight:
  "map_option (bookingInProgress \<circ> ui) (run example_props initial_world first_booking) = Some True
   \<and> map_option rpcs_in_flight
       (run example_props initial_world (first_booking @ second_booking)) = Some 2
   \<and> map_option (filter is_book_rpc \<circ> trace)
       (run example_props initial_world (first_booking @ second_booking)) =
     Some [book_call example_props ''s1'' student, book_call example_props ''s2'' student]"
proof -
  have "run example_props booking_s1 second_booking =
     Some \<lparr>ui = \<lparr>slots = [slot1, slot2], loading = False, bookingInProgress = True,
                 bookingSlotId = Some ''s2'', error = []\<rparr>,
           inflight = [AwaitRpc ''2025-01-10T10:00Z'' student, AwaitRpc ''2025-01-10T11:00Z'' student],
           trace = trace booking_s1 @
             [SetBookingSlotId (Some ''s2''), SetBookingInProgress True, SetError [], Call GetUser,
              book_call example_props ''s1'' student, book_call example_props ''s2'' student]\<rparr>"
    by (simp add: second_booking_def booking_s1_def spawn_def settle_def book_start_def
        can_book_def render_def slot_row_def slot1_def slot2_def book_call_def)
  then show ?thesis
    by (simp add: run_append run_first_booking rpcs_in_flight_def)
      (simp add: booking_s1_def book_call_def)
qed

text \<open>
  C1, amended. While a booking attempt is unresolved (\<open>bookingInProgress\<close> is true), a
  call of the booking operation from the row of another listed slot B is accepted: it
  points \<open>bookingSlotId\<close> to B, leaves the flag true, clears the error and issues its
  own current-user call; when that call resolves to a user, the attempt submits its
  own call of the booking procedure, so that one more booking call is in flight than
  before.
\<close>

theorem second_booking_accepted:
  assumes "bookingInProgress (ui w)" and "can_book (ui w) slotB startB"
  shows "\<exists>w'. run p w [ClickBook slotB startB,
                     Settle (length (inflight w)) (UserResponse (Inr (Some user)))] = Some w'
     \<and> rpcs_in_flight w' = Suc (rpcs_in_flight w)
     \<and> inflight w' = inflight w @ [AwaitRpc startB user]
     \<and> trace w' = trace w @
         [SetBookingSlotId (Some slotB), SetBookingInProgress True, SetError [], Call GetUser,
          book_call p slotB user]
     \<and> bookingInProgress (ui w') \<and> bookingSlotId (ui w') = Some slotB"
  using assms(2)
  by (simp add: spawn_def settle_def book_start_def book_call_def rpcs_in_flight_def)

theorem second_booking_accepted_witness:
  "bookingInProgress (ui booking_s1) \<and> can_book (ui booking_s1) ''s2'' ''2025-01-10T11:00Z''
   \<and> (\<exists>w'. run example_props booking_s1
         [ClickBook ''s2'' ''2025-01-10T11:00Z'',
          Settle (length (inflight booking_s1)) (UserResponse (Inr (Some student)))] = Some w'
       \<and> rpcs_in_flight w' = Suc (rpcs_in_flight booking_s1)
       \<and> bookingSlotId (ui w') = Some ''s2'')"
proof -
  have a: "bookingInProgress (ui booking_s1)"
    by (simp add: booking_s1_def)
  have b: "can_book (ui booking_s1) ''s2'' ''2025-01-10T11:00Z''"
    by (simp add: booking_s1_def can_book_def render_def slot_row_def slot1_def slot2_def)
  show ?thesis
    using a b second_booking_accepted [OF a b, where p = example_props and user = student]
    by blast
qed

end
